theory Spec2Isabelle
  imports Main
begin

section \<open>Strings, integers and paths as the Python library computes them\<close>

text \<open>
  The downloader is a Python script. Strings are modelled as \<open>string\<close> (ASCII text),
  Python's unbounded integers as \<open>int\<close>. The functions of this section are the library
  calls the script makes: \<open>str.strip\<close>, \<open>str.split\<close>, \<open>str.endswith\<close>, \<open>int(...)\<close>,
  \<open>str(...)\<close> of an integer and the pure path operations of \<open>pathlib\<close> (POSIX flavour).
\<close>

text \<open>ASCII white space as \<open>str.isspace\<close> sees it: codes 9 to 13, 28 to 31 and 32.\<close>

definition is_space :: "char \<Rightarrow> bool" where
  "is_space c = (let n = (of_char c :: nat) in (9 \<le> n \<and> n \<le> 13) \<or> (28 \<le> n \<and> n \<le> 32))"

text \<open>\<open>s.strip()\<close>\<close>

definition py_strip :: "string \<Rightarrow> string" where
  "py_strip s = rev (dropWhile is_space (rev (dropWhile is_space s)))"

text \<open>\<open>s.split()\<close>: the maximal runs of characters that are not white space.\<close>

fun split_ws :: "string \<Rightarrow> string \<Rightarrow> string list" where
  "split_ws cur [] = (if cur = [] then [] else [cur])"
| "split_ws cur (c # cs) =
     (if is_space c then (if cur = [] then split_ws [] cs else cur # split_ws [] cs)
      else split_ws (cur @ [c]) cs)"

definition py_split :: "string \<Rightarrow> string list" where
  "py_split s = split_ws [] s"

text \<open>\<open>s.split(sep)\<close> for a one-character separator: empty fields are kept.\<close>

fun split_on :: "char \<Rightarrow> string \<Rightarrow> string \<Rightarrow> string list" where
  "split_on sep cur [] = [cur]"
| "split_on sep cur (c # cs) =
     (if c = sep then cur # split_on sep [] cs else split_on sep (cur @ [c]) cs)"

text \<open>\<open>s.endswith(suf)\<close>\<close>

definition endswith :: "string \<Rightarrow> string \<Rightarrow> bool" where
  "endswith s suf = (length suf \<le> length s \<and> drop (length s - length suf) s = suf)"

text \<open>The value of a decimal digit (codes 48 to 57), \<open>None\<close> for any other character.\<close>

definition digit_of :: "char \<Rightarrow> nat option" where
  "digit_of c =
     (let n = (of_char c :: nat) in if 48 \<le> n \<and> n \<le> 57 then Some (n - 48) else None)"

text \<open>
  The digits of an integer literal as \<open>int(...)\<close> reads them: one or more digits, where
  a single underscore may stand between two digits.
\<close>

fun py_digits_acc :: "nat \<Rightarrow> string \<Rightarrow> nat option" where
  "py_digits_acc acc [] = Some acc"
| "py_digits_acc acc (c # cs) =
     (case digit_of c of
        Some d \<Rightarrow> py_digits_acc (10 * acc + d) cs
      | None \<Rightarrow>
          (if c = CHR ''_'' then
             (case cs of
                [] \<Rightarrow> None
              | c' # cs' \<Rightarrow>
                  (case digit_of c' of
                     Some d \<Rightarrow> py_digits_acc (10 * acc + d) cs'
                   | None \<Rightarrow> None))
           else None))"

definition py_digits :: "string \<Rightarrow> nat option" where
  "py_digits s =
     (case s of
        [] \<Rightarrow> None
      | c # cs \<Rightarrow> (case digit_of c of Some d \<Rightarrow> py_digits_acc d cs | None \<Rightarrow> None))"

text \<open>
  \<open>int(s)\<close> in base ten: white space around the literal is stripped, one sign is
  allowed. \<open>None\<close> stands for the \<open>ValueError\<close> the call raises. Digits outside ASCII
  and the interpreter's limit on the length of a literal are not modelled.
\<close>

definition py_int :: "string \<Rightarrow> int option" where
  "py_int s =
     (case py_strip s of
        [] \<Rightarrow> None
      | c # cs \<Rightarrow>
          (if c = CHR ''-'' then map_option (\<lambda>n. - int n) (py_digits cs)
           else if c = CHR ''+'' then map_option int (py_digits cs)
           else map_option int (py_digits (c # cs))))"

text \<open>\<open>str(n)\<close> of an integer.\<close>

fun nat_str :: "nat \<Rightarrow> string" where
  "nat_str n =
     (if n < 10 then [''0123456789'' ! n]
      else nat_str (n div 10) @ [''0123456789'' ! (n mod 10)])"

declare nat_str.simps [simp del]

definition py_str :: "int \<Rightarrow> string" where
  "py_str i = (if i < 0 then CHR ''-'' # nat_str (nat (- i)) else nat_str (nat i))"

text \<open>
  A path is the list of its parts, as \<open>Path.parts\<close> gives them; an absolute path has the
  part \<open>''/''\<close> first. \<open>path_parts\<close> reads a string as \<open>Path(s)\<close> does: it splits at the
  slashes and drops empty parts and parts \<open>''.''\<close>. (The special root of a string that
  starts with exactly two slashes is not modelled.)
\<close>

type_synonym path = "string list"

definition path_parts :: "string \<Rightarrow> path" where
  "path_parts s =
     (if s \<noteq> [] \<and> hd s = CHR ''/'' then [''/''] else []) @
     filter (\<lambda>p. p \<noteq> [] \<and> p \<noteq> ''.'') (split_on CHR ''/'' [] s)"

definition is_absolute :: "path \<Rightarrow> bool" where
  "is_absolute p = (p \<noteq> [] \<and> hd p = ''/'')"

text \<open>\<open>p / s\<close>: an absolute right operand replaces the left one.\<close>

definition path_join :: "path \<Rightarrow> string \<Rightarrow> path" where
  "path_join p s = (if is_absolute (path_parts s) then path_parts s else p @ path_parts s)"

text \<open>\<open>Path(s).name\<close>: the last part, empty when there is none but the root.\<close>

definition path_name :: "string \<Rightarrow> string" where
  "path_name s =
     (let ps = filter (\<lambda>p. p \<noteq> [] \<and> p \<noteq> ''.'') (split_on CHR ''/'' [] s)
      in if ps = [] then [] else last ps)"

text \<open>\<open>str(p)\<close>\<close>

fun join_slash :: "string list \<Rightarrow> string" where
  "join_slash [] = []"
| "join_slash [p] = p"
| "join_slash (p # q # ps) = p @ ''/'' @ join_slash (q # ps)"

definition path_str :: "path \<Rightarrow> string" where
  "path_str p =
     (if p = [] then ''.''
      else if is_absolute p then CHR ''/'' # join_slash (tl p)
      else join_slash p)"

datatype py_error = IndexError | ValueError

text \<open>
  \<open>p.parents[i]\<close>: the \<open>i\<close>-th ancestor. A relative path with \<open>n\<close> parts has \<open>n\<close>
  ancestors (the last is \<open>.\<close>), an absolute one \<open>n - 1\<close>; beyond that Python raises
  \<open>IndexError\<close>.
\<close>

definition n_parents :: "path \<Rightarrow> nat" where
  "n_parents p = (if is_absolute p then length p - 1 else length p)"

definition parents :: "path \<Rightarrow> nat \<Rightarrow> py_error + path" where
  "parents p i =
     (if i < n_parents p then Inr (take (length p - 1 - i) p) else Inl IndexError)"

text \<open>\<open>p.parts[-k]\<close> for \<open>k \<ge> 1\<close>\<close>

definition part_from_end :: "path \<Rightarrow> nat \<Rightarrow> py_error + string" where
  "part_from_end p k =
     (if 1 \<le> k \<and> k \<le> length p then Inr (p ! (length p - k)) else Inl IndexError)"

section \<open>Configuration and tasks\<close>

text \<open>
  The options the script reads from its global \<open>args\<close>, with \<open>OUTPUT_ROOT\<close> as a path
  and \<open>RAW_SUBDIR\<close> as the string given.
\<close>

record config =
  output_root :: path
  raw_subdir :: string
  shuffle :: bool
  year_from :: "int option"
  year_to :: "int option"
  skip_extract :: bool
  extract_only :: bool
  retries :: int

text \<open>\<open>Task = (size_bytes, url, year)\<close>\<close>

type_synonym task = "int \<times> string \<times> int"

text \<open>
  The truth value of an optional integer option: \<open>None\<close> and \<open>0\<close> are false in Python.
\<close>

definition truthy :: "int option \<Rightarrow> bool" where
  "truthy v = (case v of None \<Rightarrow> False | Some n \<Rightarrow> n \<noteq> 0)"

text \<open>\<open>v or d\<close> for an optional integer\<close>

definition or_default :: "int option \<Rightarrow> int \<Rightarrow> int" where
  "or_default v d = (case v of None \<Rightarrow> d | Some n \<Rightarrow> if n = 0 then d else n)"

section \<open>\<open>parse_masterfiles\<close>\<close>

text \<open>
  The body of the loop over the lines of a manifest: \<open>None\<close> where the source runs
  \<open>continue\<close>, \<open>Some task\<close> where it appends the task.
\<close>

definition parse_line :: "config \<Rightarrow> string \<Rightarrow> task option" where
  "parse_line cfg line =
     (case py_split (py_strip line) of
        [size_s, hash_s, url] \<Rightarrow>
          (if \<not> endswith url ''.gkg.csv.zip'' then None
           else
             (case py_int size_s of
                None \<Rightarrow> None
              | Some size_int \<Rightarrow>
                  (let ts = hd (split_on CHR ''.'' [] (path_name url)) in
                   case py_int (take 4 ts) of
                     None \<Rightarrow> None
                   | Some year \<Rightarrow>
                       (if truthy (year_from cfg) \<and> year < the (year_from cfg) then None
                        else if truthy (year_to cfg) \<and> year > the (year_to cfg) then None
                        else Some (size_int, url, year)))))
      | _ \<Rightarrow> None)"

text \<open>
  The loop over the lines of one manifest and over the manifests, with the two
  accumulators \<open>tasks\<close> and \<open>total_bytes\<close>.
\<close>

fun parse_lines :: "config \<Rightarrow> string list \<Rightarrow> task list \<times> int \<Rightarrow> task list \<times> int" where
  "parse_lines cfg [] acc = acc"
| "parse_lines cfg (line # rest) (tasks, total_bytes) =
     (case parse_line cfg line of
        None \<Rightarrow> parse_lines cfg rest (tasks, total_bytes)
      | Some (size_int, url, year) \<Rightarrow>
          parse_lines cfg rest (tasks @ [(size_int, url, year)], total_bytes + size_int))"

fun parse_files :: "config \<Rightarrow> string list list \<Rightarrow> task list \<times> int \<Rightarrow> task list \<times> int" where
  "parse_files cfg [] acc = acc"
| "parse_files cfg (mfile # rest) acc = parse_files cfg rest (parse_lines cfg mfile acc)"

text \<open>
  \<open>random.shuffle\<close>: for \<open>i\<close> from the last index down to 1, exchange the elements at
  \<open>i\<close> and at a random index \<open>j \<le> i\<close>. The random source is a function \<open>rnd\<close> giving the
  draw of step \<open>i\<close>, reduced into the range \<open>0..i\<close>.
\<close>

definition swap :: "'a list \<Rightarrow> nat \<Rightarrow> nat \<Rightarrow> 'a list" where
  "swap xs i j = xs[i := xs ! j, j := xs ! i]"

fun shuffle_from :: "(nat \<Rightarrow> nat) \<Rightarrow> nat \<Rightarrow> 'a list \<Rightarrow> 'a list" where
  "shuffle_from rnd 0 xs = xs"
| "shuffle_from rnd (Suc i) xs = shuffle_from rnd i (swap xs (Suc i) (rnd (Suc i) mod (Suc (Suc i))))"

definition random_shuffle :: "(nat \<Rightarrow> nat) \<Rightarrow> 'a list \<Rightarrow> 'a list" where
  "random_shuffle rnd xs = shuffle_from rnd (length xs - 1) xs"

text \<open>
  \<open>parse_masterfiles()\<close>, given the lines of every manifest file named on the command
  line, in order.
\<close>

definition parse_masterfiles :: "config \<Rightarrow> (nat \<Rightarrow> nat) \<Rightarrow> string list list \<Rightarrow> task list \<times> int" where
  "parse_masterfiles cfg rnd masterfiles =
     (let (tasks, total_bytes) = parse_files cfg masterfiles ([], 0)
      in (if shuffle cfg then random_shuffle rnd tasks else tasks, total_bytes))"

section \<open>The world the script acts on\<close>

text \<open>
  A file is either a readable ZIP archive, given by its members (name and data), or any
  other sequence of bytes. The file store holds regular files only, under their paths;
  directories are implicit, so \<open>mkdir\<close> leaves the store as it is and \<open>exists\<close> is
  asked of files.
\<close>

datatype fdata = Archive "(string \<times> string) list" | Raw string

type_synonym fstore = "(path \<times> fdata) list"

definition fs_exists :: "fstore \<Rightarrow> path \<Rightarrow> bool" where
  "fs_exists fs p = (map_of fs p \<noteq> None)"

fun fs_write :: "path \<Rightarrow> fdata \<Rightarrow> fstore \<Rightarrow> fstore" where
  "fs_write p d [] = [(p, d)]"
| "fs_write p d ((q, e) # fs) = (if q = p then (p, d) # fs else (q, e) # fs_write p d fs)"

text \<open>
  What one \<open>session.get\<close> and the streaming of its body can do: answer 404, raise
  before the archive file is opened (transport error, any other error status at
  \<open>raise_for_status\<close>, a failing \<open>open\<close>), raise while streaming after some bytes were
  written, or deliver the whole body.
\<close>

datatype response = NotFound | Failure | StreamFailure string | Delivered fdata

text \<open>
  The remote host: its answer to a request for a url, which may depend on how many
  requests were made before.
\<close>

type_synonym remote = "string \<Rightarrow> nat \<Rightarrow> response"

text \<open>Warnings and errors written by the logger (level and the subject of the message).\<close>

datatype log_entry = LogWarning string | LogError string

text \<open>
  Everything the script reads or changes: the file store, the lines appended to
  \<open>failures.log\<close>, the urls requested, the arguments of \<open>time.sleep\<close>, the archives
  opened for extraction with their target directories, the log, and the two progress
  counters (\<open>pbar_files\<close> of the download phase, \<open>pbar\<close> of the extraction-only phase).
  The byte counter \<open>pbar_bytes\<close> is display only and left out.
\<close>

record world =
  files :: fstore
  failures_log :: "string list"
  fetches :: "string list"
  sleeps :: "nat list"
  extractions :: "(path \<times> path) list"
  log :: "log_entry list"
  pbar_files :: nat
  pbar_zips :: nat

section \<open>Extraction\<close>

text \<open>
  \<open>ZipFile.extractall(target)\<close>: a member's name is split at the slashes, empty parts
  and the parts \<open>''.''\<close> and \<open>''..''\<close> are dropped, and the data is written below the
  target. A member whose name ends with a slash is a directory and writes no file.
\<close>

definition member_parts :: "string \<Rightarrow> path" where
  "member_parts name =
     filter (\<lambda>p. p \<noteq> [] \<and> p \<noteq> ''.'' \<and> p \<noteq> ''..'') (split_on CHR ''/'' [] name)"

definition extract_member :: "path \<Rightarrow> string \<times> string \<Rightarrow> fstore \<Rightarrow> fstore" where
  "extract_member target m fs =
     (if member_parts (fst m) = [] \<or> endswith (fst m) ''/'' then fs
      else fs_write (target @ member_parts (fst m)) (Raw (snd m)) fs)"

definition extractall :: "path \<Rightarrow> (string \<times> string) list \<Rightarrow> fstore \<Rightarrow> fstore" where
  "extractall target members fs = fold (extract_member target) members fs"

text \<open>
  The \<open>try\<close> block shared by \<open>download_task\<close> and \<open>extract_one\<close>: open the archive and
  extract it; when the file is missing or not an archive, log the error and append the
  archive's path to \<open>failures.log\<close>. The boolean tells whether the \<open>try\<close> succeeded.
\<close>

definition try_extract :: "path \<Rightarrow> path \<Rightarrow> world \<Rightarrow> bool \<times> world" where
  "try_extract zip_path year_dir w =
     (let w1 = w\<lparr>extractions := extractions w @ [(zip_path, year_dir)]\<rparr> in
      case map_of (files w) zip_path of
        Some (Archive members) \<Rightarrow>
          (True, w1\<lparr>files := extractall year_dir members (files w1)\<rparr>)
      | _ \<Rightarrow>
          (False, w1\<lparr>log := log w1 @ [LogError (path_str zip_path)],
                      failures_log := failures_log w1 @ [path_str zip_path]\<rparr>))"

definition extract_one :: "path \<Rightarrow> path \<Rightarrow> world \<Rightarrow> world" where
  "extract_one zip_path year_dir w = snd (try_extract zip_path year_dir w)"

section \<open>\<open>download_task\<close>\<close>

text \<open>The body of the \<open>try\<close> inside the retry loop, and the three ways it ends.\<close>

datatype attempt_end = Broke world | Returned world | Raised world

definition attempt_fetch :: "remote \<Rightarrow> string \<Rightarrow> path \<Rightarrow> world \<Rightarrow> attempt_end" where
  "attempt_fetch remote url zip_path w =
     (let w1 = w\<lparr>fetches := fetches w @ [url]\<rparr> in
      case remote url (length (fetches w)) of
        NotFound \<Rightarrow> Returned (w1\<lparr>log := log w1 @ [LogWarning url]\<rparr>)
      | Failure \<Rightarrow> Raised w1
      | StreamFailure s \<Rightarrow> Raised (w1\<lparr>files := fs_write zip_path (Raw s) (files w1)\<rparr>)
      | Delivered d \<Rightarrow> Broke (w1\<lparr>files := fs_write zip_path d (files w1)\<rparr>))"

text \<open>
  \<open>for attempt in range(1, args.retries + 1)\<close>: \<open>attempt\<close> is the loop variable and the
  second number counts the iterations left. The loop ends by \<open>break\<close> after a download,
  by one of the two \<open>return\<close>s, or by running out of iterations (only when the range is
  empty).
\<close>

datatype loop_end = Downloaded | Return404 | ReturnFailed | RangeEmpty

fun retry_loop ::
  "config \<Rightarrow> remote \<Rightarrow> string \<Rightarrow> path \<Rightarrow> nat \<Rightarrow> nat \<Rightarrow> world \<Rightarrow> loop_end \<times> world" where
  "retry_loop cfg remote url zip_path attempt 0 w = (RangeEmpty, w)"
| "retry_loop cfg remote url zip_path attempt (Suc n) w =
     (case attempt_fetch remote url zip_path w of
        Returned w1 \<Rightarrow> (Return404, w1)
      | Broke w1 \<Rightarrow> (Downloaded, w1)
      | Raised w1 \<Rightarrow>
          (if int attempt = retries cfg then
             (ReturnFailed, w1\<lparr>log := log w1 @ [LogError url],
                                failures_log := failures_log w1 @ [url]\<rparr>)
           else retry_loop cfg remote url zip_path (Suc attempt) n
                  (w1\<lparr>sleeps := sleeps w1 @ [2 ^ attempt]\<rparr>)))"

text \<open>
  How a task ends. The source returns nothing; the label names the \<open>return\<close> taken and,
  for the last one, what the extraction step did.
\<close>

datatype outcome =
  AlreadyExtracted | NotFound404 | RetriesExhausted | Extracted | ExtractFailed | ExtractSkipped

text \<open>
  The paths of a task: \<open>year_dir = OUTPUT_ROOT / str(year)\<close>,
  \<open>zip_path = year_dir / RAW_SUBDIR / fname\<close> and \<open>csv_path = year_dir / fname[:-4]\<close>, where
  \<open>fname = Path(url).name\<close>.
\<close>

definition year_dir_of :: "config \<Rightarrow> task \<Rightarrow> path" where
  "year_dir_of cfg task = path_join (output_root cfg) (py_str (snd (snd task)))"

definition zip_path_of :: "config \<Rightarrow> task \<Rightarrow> path" where
  "zip_path_of cfg task =
     path_join (path_join (year_dir_of cfg task) (raw_subdir cfg)) (path_name (fst (snd task)))"

definition csv_path_of :: "config \<Rightarrow> task \<Rightarrow> path" where
  "csv_path_of cfg task =
     (let fname = path_name (fst (snd task))
      in path_join (year_dir_of cfg task) (take (length fname - 4) fname))"

text \<open>
  \<open>download_task\<close>: the resume check of the extracted file, the retry loop when the
  archive is missing (when it is present the loop is not entered, and the function goes
  on as after a \<open>break\<close>), the extraction unless \<open>args.skip_extract\<close>, and the update of
  the file counter at the end.
\<close>

definition download_task :: "config \<Rightarrow> remote \<Rightarrow> task \<Rightarrow> world \<Rightarrow> outcome \<times> world" where
  "download_task cfg remote task w =
     (let url = fst (snd task);
          year_dir = year_dir_of cfg task;
          zip_path = zip_path_of cfg task;
          csv_path = csv_path_of cfg task
      in
      if fs_exists (files w) csv_path then
        (AlreadyExtracted, w\<lparr>pbar_files := pbar_files w + 1\<rparr>)
      else
        (case (if \<not> fs_exists (files w) zip_path
               then retry_loop cfg remote url zip_path 1 (nat (retries cfg)) w
               else (Downloaded, w)) of
           (Return404, w1) \<Rightarrow> (NotFound404, w1)
         | (ReturnFailed, w1) \<Rightarrow> (RetriesExhausted, w1)
         | (_, w1) \<Rightarrow>
             (if \<not> skip_extract cfg then
                (case try_extract zip_path year_dir w1 of
                   (ok, w2) \<Rightarrow>
                     (if ok then Extracted else ExtractFailed,
                      w2\<lparr>pbar_files := pbar_files w2 + 1\<rparr>))
              else (ExtractSkipped, w1\<lparr>pbar_files := pbar_files w1 + 1\<rparr>))))"

section \<open>\<open>main\<close>\<close>

text \<open>
  The tasks are handed to a pool of threads; the model runs them one after the other in
  the order of submission and collects how each ended.
\<close>

fun run_tasks :: "config \<Rightarrow> remote \<Rightarrow> task list \<Rightarrow> world \<Rightarrow> outcome list \<times> world" where
  "run_tasks cfg remote [] w = ([], w)"
| "run_tasks cfg remote (t # ts) w =
     (case download_task cfg remote t w of
        (out, w1) \<Rightarrow> (case run_tasks cfg remote ts w1 of (outs, w2) \<Rightarrow> (out # outs, w2)))"

text \<open>
  \<open>OUTPUT_ROOT.rglob(f"{RAW_SUBDIR}/*.zip")\<close>: the files below the output root whose
  name ends with \<open>.zip\<close> and whose directory ends with the parts of the raw
  subdirectory, in the order of the store.
\<close>

definition is_raw_zip :: "config \<Rightarrow> path \<Rightarrow> bool" where
  "is_raw_zip cfg p =
     (let root = output_root cfg; rp = path_parts (raw_subdir cfg) in
      length root + length rp + 1 \<le> length p \<and>
      take (length root) p = root \<and>
      take (length rp) (drop (length p - 1 - length rp) p) = rp \<and>
      endswith (last p) ''.zip'')"

definition rglob_zips :: "config \<Rightarrow> fstore \<Rightarrow> path list" where
  "rglob_zips cfg fs = filter (is_raw_zip cfg) (map fst fs)"

text \<open>
  The year filter of the extraction-only phase:
  \<open>(args.year_from or 0) <= int(p.parts[-3]) <= (args.year_to or 9999)\<close>. An exception
  of the index or of \<open>int\<close> ends the list comprehension.
\<close>

fun filter_years :: "config \<Rightarrow> path list \<Rightarrow> py_error + path list" where
  "filter_years cfg [] = Inr []"
| "filter_years cfg (p # ps) =
     (case part_from_end p 3 of
        Inl e \<Rightarrow> Inl e
      | Inr s \<Rightarrow>
          (case py_int s of
             None \<Rightarrow> Inl ValueError
           | Some y \<Rightarrow>
               (case filter_years cfg ps of
                  Inl e \<Rightarrow> Inl e
                | Inr qs \<Rightarrow>
                    Inr (if or_default (year_from cfg) 0 \<le> y \<and> y \<le> or_default (year_to cfg) 9999
                         then p # qs else qs))))"

definition select_zips :: "config \<Rightarrow> fstore \<Rightarrow> py_error + path list" where
  "select_zips cfg fs =
     (if truthy (year_from cfg) \<or> truthy (year_to cfg)
      then filter_years cfg (rglob_zips cfg fs)
      else Inr (rglob_zips cfg fs))"

text \<open>
  \<open>[ex.submit(extract_one, zp, zp.parents[2]) for zp in zip_paths]\<close>, each submitted
  extraction run at once. An \<open>IndexError\<close> of \<open>parents[2]\<close> ends the comprehension;
  what was submitted before has run.
\<close>

fun submit_all :: "path list \<Rightarrow> world \<Rightarrow> py_error option \<times> world" where
  "submit_all [] w = (None, w)"
| "submit_all (zp # zps) w =
     (case parents zp 2 of
        Inl e \<Rightarrow> (Some e, w)
      | Inr target \<Rightarrow> submit_all zps (extract_one zp target w))"

text \<open>
  \<open>main()\<close>, given the random source of the shuffle and the lines of the manifest
  files. The result is the exception that ended it, if any, and the world it leaves.
\<close>

definition main :: "config \<Rightarrow> remote \<Rightarrow> (nat \<Rightarrow> nat) \<Rightarrow> string list list \<Rightarrow> world \<Rightarrow> py_error option \<times> world" where
  "main cfg remote rnd masterfiles w =
     (if extract_only cfg then
        (case select_zips cfg (files w) of
           Inl e \<Rightarrow> (Some e, w)
         | Inr zip_paths \<Rightarrow>
             (case submit_all zip_paths w of
                (Some e, w1) \<Rightarrow> (Some e, w1)
              | (None, w1) \<Rightarrow> (None, w1\<lparr>pbar_zips := pbar_zips w1 + length zip_paths\<rparr>)))
      else
        (case parse_masterfiles cfg rnd masterfiles of
           (tasks, total_bytes) \<Rightarrow> (None, snd (run_tasks cfg remote tasks w))))"

section \<open>Notions used in the statements\<close>



text \<open>
  A year passes the filter when it is at or above the lower bound and at or below the
  upper bound, where a bound that is absent or zero does not restrict.
\<close>

definition year_passes :: "config \<Rightarrow> int \<Rightarrow> bool" where
  "year_passes cfg y =
     ((case year_from cfg of None \<Rightarrow> True | Some f \<Rightarrow> f = 0 \<or> f \<le> y) \<and>
      (case year_to cfg of None \<Rightarrow> True | Some t \<Rightarrow> t = 0 \<or> y \<le> t))"



text \<open>A response that makes the \<open>try\<close> block raise.\<close>

definition is_failure :: "response \<Rightarrow> bool" where
  "is_failure r = (case r of Failure \<Rightarrow> True | StreamFailure s \<Rightarrow> True | _ \<Rightarrow> False)"


subsection \<open>Concrete inputs\<close>

text \<open>The defaults of the command line, and a world in which nothing has happened yet.\<close>

definition default_config :: config where
  "default_config =
     \<lparr>output_root = [''data''], raw_subdir = ''rawdata'', shuffle = False,
      year_from = None, year_to = None, skip_extract = False, extract_only = False,
      retries = 3\<rparr>"

definition empty_world :: world where
  "empty_world =
     \<lparr>files = [], failures_log = [], fetches = [], sleeps = [], extractions = [], log = [],
      pbar_files = 0, pbar_zips = 0\<rparr>"

definition url2015 :: string where
  "url2015 = ''http://host/path/20150218230000.gkg.csv.zip''"

definition url2016 :: string where
  "url2016 = ''http://host/path/20160101000000.gkg.csv.zip''"

definition task2015 :: task where
  "task2015 = (1234, url2015, 2015)"

definition zip2015 :: path where
  "zip2015 = [''data'', ''2015'', ''rawdata'', ''20150218230000.gkg.csv.zip'']"

definition zip2016 :: path where
  "zip2016 = [''data'', ''2016'', ''rawdata'', ''20160101000000.gkg.csv.zip'']"

definition task2016 :: task where
  "task2016 = (99, url2016, 2016)"

definition csv2015 :: path where
  "csv2015 = [''data'', ''2015'', ''20150218230000.gkg.csv'']"

definition csv2016 :: path where
  "csv2016 = [''data'', ''2016'', ''20160101000000.gkg.csv'']"

text \<open>The output tree with the archive of 2015 downloaded, before and after its extraction.\<close>

definition zip_world :: world where
  "zip_world =
     empty_world\<lparr>files := [(zip2015, Archive [(''20150218230000.gkg.csv'', ''rows'')])]\<rparr>"

definition extracted_world :: world where
  "extracted_world =
     empty_world\<lparr>files := [(zip2015, Archive [(''20150218230000.gkg.csv'', ''rows'')]),
                            (csv2015, Raw ''rows'')]\<rparr>"

text \<open>A manifest of two lines, and the three workflows as configurations.\<close>

definition manifest2 :: "string list list" where
  "manifest2 =
     [[''1234 abcd1234ef http://host/path/20150218230000.gkg.csv.zip'',
       ''99 0123456789 http://host/path/20160101000000.gkg.csv.zip'']]"

definition download_only_config :: config where
  "download_only_config = default_config\<lparr>skip_extract := True\<rparr>"

definition extract_only_config :: config where
  "extract_only_config = default_config\<lparr>extract_only := True\<rparr>"

text \<open>
  The worlds a run over \<open>manifest2\<close> leaves, starting from the empty tree with a remote
  host that delivers every archive: after the combined workflow, and after the
  download-only workflow.
\<close>

definition combined_world :: world where
  "combined_world =
     \<lparr>files = [(zip2015, Archive [(''20150218230000.gkg.csv'', ''rows'')]),
               (csv2015, Raw ''rows''),
               (zip2016, Archive [(''20160101000000.gkg.csv'', ''rows'')]),
               (csv2016, Raw ''rows'')],
      failures_log = [], fetches = [url2015, url2016], sleeps = [],
      extractions = [(zip2015, [''data'', ''2015'']), (zip2016, [''data'', ''2016''])],
      log = [], pbar_files = 2, pbar_zips = 0\<rparr>"

definition downloaded_world :: world where
  "downloaded_world =
     \<lparr>files = [(zip2015, Archive [(''20150218230000.gkg.csv'', ''rows'')]),
               (zip2016, Archive [(''20160101000000.gkg.csv'', ''rows'')])],
      failures_log = [], fetches = [url2015, url2016], sleeps = [],
      extractions = [], log = [], pbar_files = 2, pbar_zips = 0\<rparr>"

text \<open>A remote host that delivers, for every url, an archive holding the one CSV file named after it.\<close>

definition serving :: remote where
  "serving url n =
     Delivered (Archive [(take (length (path_name url) - 4) (path_name url), ''rows'')])"

section \<open>The manifest parser\<close>









lemma parse_line_year_filter:
  "parse_line cfg line =
     (case parse_line (cfg\<lparr>year_from := None, year_to := None\<rparr>) line of
        None \<Rightarrow> None
      | Some t \<Rightarrow> if year_passes cfg (snd (snd t)) then Some t else None)"
  apply (simp add: parse_line_def year_passes_def truthy_def Let_def
      split: list.splits option.splits)
  apply auto
  done



text \<open>
  C7, as stated, fails when a bound is given as zero: the script tests the bound for
  truth, and zero is false, so the bound is taken as absent. With the upper bound 0 the
  line of the year 2015 is kept, although 2015 lies above the bound.
\<close>

theorem year_filter_counterexample:
  "fst (parse_masterfiles (default_config\<lparr>year_to := Some 0\<rparr>) id
          [[''1234 abcd1234ef http://host/path/20150218230000.gkg.csv.zip'']]) =
     [(1234, ''http://host/path/20150218230000.gkg.csv.zip'', 2015)]"
  by code_simp

text \<open>
  C7, amended. The year filter is inclusive on both bounds, and a bound that is absent
  or zero is treated as unbounded: a line yields a task under a filter exactly when it
  yields one without a filter and the year passes. The manifest line
  \<open>1234 abcd1234ef http://host/path/20150218230000.gkg.csv.zip\<close> yields no task with
  the filter from 2016 to 2020, and with no filter it yields exactly one task, with the
  year 2015 and the size 1234.
\<close>

theorem year_filter:
  "parse_line cfg line =
     (case parse_line (cfg\<lparr>year_from := None, year_to := None\<rparr>) line of
        None \<Rightarrow> None
      | Some t \<Rightarrow> if year_passes cfg (snd (snd t)) then Some t else None) \<and>
   year_passes (default_config\<lparr>year_from := Some 2016, year_to := Some 2020\<rparr>) 2016 \<and>
   year_passes (default_config\<lparr>year_from := Some 2016, year_to := Some 2020\<rparr>) 2020 \<and>
   fst (parse_masterfiles (default_config\<lparr>year_from := Some 2016, year_to := Some 2020\<rparr>) rnd
          [[''1234 abcd1234ef http://host/path/20150218230000.gkg.csv.zip'']]) = [] \<and>
   fst (parse_masterfiles default_config rnd
          [[''1234 abcd1234ef http://host/path/20150218230000.gkg.csv.zip'']]) =
     [(1234, ''http://host/path/20150218230000.gkg.csv.zip'', 2015)]"
proof -
  have scenario_filtered:
    "parse_line (default_config\<lparr>year_from := Some 2016, year_to := Some 2020\<rparr>)
       ''1234 abcd1234ef http://host/path/20150218230000.gkg.csv.zip'' = None"
    by code_simp
  have scenario_open:
    "parse_line default_config ''1234 abcd1234ef http://host/path/20150218230000.gkg.csv.zip'' =
       Some (1234, ''http://host/path/20150218230000.gkg.csv.zip'', 2015)"
    by code_simp
  have bounds:
    "year_passes (default_config\<lparr>year_from := Some 2016, year_to := Some 2020\<rparr>) 2016"
    "year_passes (default_config\<lparr>year_from := Some 2016, year_to := Some 2020\<rparr>) 2020"
    by (simp_all add: year_passes_def default_config_def)
  have no_shuffle:
    "\<not> shuffle (default_config\<lparr>year_from := Some 2016, year_to := Some 2020\<rparr>)"
    "\<not> shuffle default_config"
    by (simp_all add: default_config_def)
  show ?thesis
    using parse_line_year_filter [of cfg line] bounds
    by (simp add: parse_masterfiles_def scenario_filtered scenario_open no_shuffle)
qed

section \<open>The retry loop\<close>

lemma attempt_fetch_failure:
  assumes "is_failure (remote url (length (fetches w)))"
  obtains w1 where "attempt_fetch remote url zp w = Raised w1"
    and "fetches w1 = fetches w @ [url]" and "sleeps w1 = sleeps w"
    and "failures_log w1 = failures_log w" and "log w1 = log w"
    and "extractions w1 = extractions w" and "pbar_files w1 = pbar_files w"
    and "pbar_zips w1 = pbar_zips w"
proof (cases "remote url (length (fetches w))")
  case Failure
  then show ?thesis
    using that [of "w\<lparr>fetches := fetches w @ [url]\<rparr>"]
    by (simp add: attempt_fetch_def Let_def)
next
  case (StreamFailure s)
  then show ?thesis
    using that [of "w\<lparr>fetches := fetches w @ [url], files := fs_write zp (Raw s) (files w)\<rparr>"]
    by (simp add: attempt_fetch_def Let_def)
qed (use assms in \<open>simp_all add: is_failure_def\<close>)

lemma attempt_fetch_not_found:
  assumes "remote url (length (fetches w)) = NotFound"
  shows "attempt_fetch remote url zp w =
           Returned (w\<lparr>fetches := fetches w @ [url], log := log w @ [LogWarning url]\<rparr>)"
  using assms by (simp add: attempt_fetch_def Let_def)

lemma attempt_fetch_delivered:
  assumes "remote url (length (fetches w)) = Delivered d"
  shows "attempt_fetch remote url zp w =
           Broke (w\<lparr>fetches := fetches w @ [url], files := fs_write zp d (files w)\<rparr>)"
  using assms by (simp add: attempt_fetch_def Let_def)

lemma map_of_fs_write: "map_of (fs_write p d fs) = (map_of fs)(p \<mapsto> d)"
  by (induction fs) (auto simp: fun_eq_iff)

lemma retry_loop_failures:
  assumes "\<forall>i<k. is_failure (remote url (length (fetches w) + i))"
    and "k < n" and "int a + int n = retries cfg + 1"
  shows "\<exists>w'. retry_loop cfg remote url zp a n w = retry_loop cfg remote url zp (a + k) (n - k) w' \<and>
           fetches w' = fetches w @ replicate k url \<and>
           sleeps w' = sleeps w @ map (\<lambda>i. 2 ^ (a + i)) [0..<k] \<and>
           failures_log w' = failures_log w \<and> log w' = log w \<and>
           extractions w' = extractions w \<and> pbar_files w' = pbar_files w \<and>
           pbar_zips w' = pbar_zips w"
  using assms
proof (induction k arbitrary: a n w)
  case 0
  show ?case by (rule exI [of _ w]) simp
next
  case (Suc k)
  from Suc.prems(2) obtain m where n: "n = Suc m" and km: "k < m"
    by (cases n) auto
  from Suc.prems(1) have f0: "is_failure (remote url (length (fetches w)))"
    by (metis add.right_neutral zero_less_Suc)
  from f0 obtain w1 where raised: "attempt_fetch remote url zp w = Raised w1"
    and w1: "fetches w1 = fetches w @ [url]" "sleeps w1 = sleeps w"
      "failures_log w1 = failures_log w" "log w1 = log w"
      "extractions w1 = extractions w" "pbar_files w1 = pbar_files w"
      "pbar_zips w1 = pbar_zips w"
    by (rule attempt_fetch_failure)
  let ?w2 = "w1\<lparr>sleeps := sleeps w1 @ [2 ^ a]\<rparr>"
  from Suc.prems(3) n km have not_last: "int a \<noteq> retries cfg" by simp
  have step: "retry_loop cfg remote url zp a n w = retry_loop cfg remote url zp (Suc a) m ?w2"
    unfolding n using raised not_last by simp
  have later: "\<forall>i<k. is_failure (remote url (length (fetches ?w2) + i))"
  proof (intro allI impI)
    fix i assume "i < k"
    then have "Suc i < Suc k" by simp
    with Suc.prems(1) have "is_failure (remote url (length (fetches w) + Suc i))"
      by blast
    then show "is_failure (remote url (length (fetches ?w2) + i))"
      by (simp add: w1)
  qed
  have count: "int (Suc a) + int m = retries cfg + 1"
    using Suc.prems(3) n by simp
  from Suc.IH [OF later km count] obtain w' where
    loop: "retry_loop cfg remote url zp (Suc a) m ?w2 = retry_loop cfg remote url zp (Suc a + k) (m - k) w'"
    and fields: "fetches w' = fetches ?w2 @ replicate k url"
      "sleeps w' = sleeps ?w2 @ map (\<lambda>i. 2 ^ (Suc a + i)) [0..<k]"
      "failures_log w' = failures_log ?w2" "log w' = log ?w2"
      "extractions w' = extractions ?w2" "pbar_files w' = pbar_files ?w2"
      "pbar_zips w' = pbar_zips ?w2"
    by blast
  have "retry_loop cfg remote url zp a n w = retry_loop cfg remote url zp (a + Suc k) (n - Suc k) w'"
    using step loop n by simp
  moreover have "fetches w' = fetches w @ replicate (Suc k) url"
    using fields(1) by (simp add: w1)
  moreover have "sleeps w' = sleeps w @ map (\<lambda>i. 2 ^ (a + i)) [0..<Suc k]"
    using fields(2) by (simp add: w1 map_upt_Suc del: upt_Suc)
  moreover have "failures_log w' = failures_log w" "log w' = log w"
    "extractions w' = extractions w" "pbar_files w' = pbar_files w" "pbar_zips w' = pbar_zips w"
    using fields(3-7) by (simp_all add: w1)
  ultimately show ?case by blast
qed


lemma retry_loop_not_found:
  assumes "\<forall>i<k. is_failure (remote url (length (fetches w) + i))"
    and "k < nat (retries cfg)"
    and "remote url (length (fetches w) + k) = NotFound"
  shows "\<exists>w'. retry_loop cfg remote url zp 1 (nat (retries cfg)) w = (Return404, w') \<and>
           fetches w' = fetches w @ replicate (Suc k) url \<and>
           sleeps w' = sleeps w @ map (\<lambda>i. 2 ^ Suc i) [0..<k] \<and>
           failures_log w' = failures_log w \<and> log w' = log w @ [LogWarning url] \<and>
           extractions w' = extractions w \<and> pbar_files w' = pbar_files w \<and>
           pbar_zips w' = pbar_zips w"
proof -
  from assms(2) have count: "int 1 + int (nat (retries cfg)) = retries cfg + 1" by simp
  have "\<exists>v. retry_loop cfg remote url zp 1 (nat (retries cfg)) w =
             retry_loop cfg remote url zp (1 + k) (nat (retries cfg) - k) v \<and>
           fetches v = fetches w @ replicate k url \<and>
           sleeps v = sleeps w @ map (\<lambda>i. 2 ^ (1 + i)) [0..<k] \<and>
           failures_log v = failures_log w \<and> log v = log w \<and>
           extractions v = extractions w \<and> pbar_files v = pbar_files w \<and>
           pbar_zips v = pbar_zips w"
    using assms(1,2) count by (rule retry_loop_failures)
  then obtain v where
    loop: "retry_loop cfg remote url zp 1 (nat (retries cfg)) w =
             retry_loop cfg remote url zp (1 + k) (nat (retries cfg) - k) v"
    and v: "fetches v = fetches w @ replicate k url"
      "sleeps v = sleeps w @ map (\<lambda>i. 2 ^ (1 + i)) [0..<k]"
      "failures_log v = failures_log w" "log v = log w"
      "extractions v = extractions w" "pbar_files v = pbar_files w" "pbar_zips v = pbar_zips w"
    by blast
  from assms(2) obtain m where m: "nat (retries cfg) - k = Suc m"
    by (cases "nat (retries cfg) - k") auto
  from assms(3) v(1) have "remote url (length (fetches v)) = NotFound" by simp
  then have "retry_loop cfg remote url zp (1 + k) (Suc m) v =
      (Return404, v\<lparr>fetches := fetches v @ [url], log := log v @ [LogWarning url]\<rparr>)"
    by (simp add: attempt_fetch_not_found)
  with loop m v show ?thesis by (simp add: replicate_append_same)
qed

lemma retry_loop_delivered:
  assumes "\<forall>i<k. is_failure (remote url (length (fetches w) + i))"
    and "k < nat (retries cfg)"
    and "remote url (length (fetches w) + k) = Delivered d"
  shows "\<exists>w'. retry_loop cfg remote url zp 1 (nat (retries cfg)) w = (Downloaded, w') \<and>
           fetches w' = fetches w @ replicate (Suc k) url \<and>
           sleeps w' = sleeps w @ map (\<lambda>i. 2 ^ Suc i) [0..<k] \<and>
           failures_log w' = failures_log w \<and> log w' = log w \<and>
           extractions w' = extractions w \<and> pbar_files w' = pbar_files w \<and>
           pbar_zips w' = pbar_zips w \<and> map_of (files w') zp = Some d"
proof -
  from assms(2) have count: "int 1 + int (nat (retries cfg)) = retries cfg + 1" by simp
  have "\<exists>v. retry_loop cfg remote url zp 1 (nat (retries cfg)) w =
             retry_loop cfg remote url zp (1 + k) (nat (retries cfg) - k) v \<and>
           fetches v = fetches w @ replicate k url \<and>
           sleeps v = sleeps w @ map (\<lambda>i. 2 ^ (1 + i)) [0..<k] \<and>
           failures_log v = failures_log w \<and> log v = log w \<and>
           extractions v = extractions w \<and> pbar_files v = pbar_files w \<and>
           pbar_zips v = pbar_zips w"
    using assms(1,2) count by (rule retry_loop_failures)
  then obtain v where
    loop: "retry_loop cfg remote url zp 1 (nat (retries cfg)) w =
             retry_loop cfg remote url zp (1 + k) (nat (retries cfg) - k) v"
    and v: "fetches v = fetches w @ replicate k url"
      "sleeps v = sleeps w @ map (\<lambda>i. 2 ^ (1 + i)) [0..<k]"
      "failures_log v = failures_log w" "log v = log w"
      "extractions v = extractions w" "pbar_files v = pbar_files w" "pbar_zips v = pbar_zips w"
    by blast
  from assms(2) obtain m where m: "nat (retries cfg) - k = Suc m"
    by (cases "nat (retries cfg) - k") auto
  from assms(3) v(1) have "remote url (length (fetches v)) = Delivered d" by simp
  then have "retry_loop cfg remote url zp (1 + k) (Suc m) v =
      (Downloaded, v\<lparr>fetches := fetches v @ [url], files := fs_write zp d (files v)\<rparr>)"
    by (simp add: attempt_fetch_delivered)
  with loop m v show ?thesis by (simp add: replicate_append_same map_of_fs_write)
qed

lemma retry_loop_exhausted:
  assumes "\<forall>i<nat (retries cfg). is_failure (remote url (length (fetches w) + i))"
    and "1 \<le> retries cfg"
  shows "\<exists>w'. retry_loop cfg remote url zp 1 (nat (retries cfg)) w = (ReturnFailed, w') \<and>
           fetches w' = fetches w @ replicate (nat (retries cfg)) url \<and>
           sleeps w' = sleeps w @ map (\<lambda>i. 2 ^ Suc i) [0..<nat (retries cfg) - 1] \<and>
           failures_log w' = failures_log w @ [url] \<and> log w' = log w @ [LogError url] \<and>
           extractions w' = extractions w \<and> pbar_files w' = pbar_files w \<and>
           pbar_zips w' = pbar_zips w"
proof -
  define k where "k = nat (retries cfg) - 1"
  from assms(2) have k: "nat (retries cfg) = Suc k" "k < nat (retries cfg)"
    by (simp_all add: k_def)
  from assms(2) have count: "int 1 + int (nat (retries cfg)) = retries cfg + 1" by simp
  from assms(1) k have prefix: "\<forall>i<k. is_failure (remote url (length (fetches w) + i))"
    by simp
  have "\<exists>v. retry_loop cfg remote url zp 1 (nat (retries cfg)) w =
             retry_loop cfg remote url zp (1 + k) (nat (retries cfg) - k) v \<and>
           fetches v = fetches w @ replicate k url \<and>
           sleeps v = sleeps w @ map (\<lambda>i. 2 ^ (1 + i)) [0..<k] \<and>
           failures_log v = failures_log w \<and> log v = log w \<and>
           extractions v = extractions w \<and> pbar_files v = pbar_files w \<and>
           pbar_zips v = pbar_zips w"
    using prefix k(2) count by (rule retry_loop_failures)
  then obtain v where
    loop: "retry_loop cfg remote url zp 1 (nat (retries cfg)) w =
             retry_loop cfg remote url zp (1 + k) (nat (retries cfg) - k) v"
    and v: "fetches v = fetches w @ replicate k url"
      "sleeps v = sleeps w @ map (\<lambda>i. 2 ^ (1 + i)) [0..<k]"
      "failures_log v = failures_log w" "log v = log w"
      "extractions v = extractions w" "pbar_files v = pbar_files w" "pbar_zips v = pbar_zips w"
    by blast
  from assms(1) k have "is_failure (remote url (length (fetches w) + k))" by simp
  with v(1) have "is_failure (remote url (length (fetches v)))" by simp
  then obtain v1 where raised: "attempt_fetch remote url zp v = Raised v1"
    and v1: "fetches v1 = fetches v @ [url]" "sleeps v1 = sleeps v"
      "failures_log v1 = failures_log v" "log v1 = log v"
      "extractions v1 = extractions v" "pbar_files v1 = pbar_files v"
      "pbar_zips v1 = pbar_zips v"
    by (rule attempt_fetch_failure)
  from k assms(2) have last: "int (1 + k) = retries cfg" by simp
  have "retry_loop cfg remote url zp (1 + k) (Suc 0) v =
      (ReturnFailed, v1\<lparr>log := log v1 @ [LogError url],
                         failures_log := failures_log v1 @ [url]\<rparr>)"
    using raised last by simp
  with loop k v v1 show ?thesis by (simp add: replicate_append_same)
qed

section \<open>The download of one task\<close>




lemma download_task_fresh:
  assumes "\<not> fs_exists (files w) (csv_path_of cfg t)"
    and "\<not> fs_exists (files w) (zip_path_of cfg t)"
  shows "download_task cfg remote t w =
     (case retry_loop cfg remote (fst (snd t)) (zip_path_of cfg t) 1 (nat (retries cfg)) w of
        (Return404, w1) \<Rightarrow> (NotFound404, w1)
      | (ReturnFailed, w1) \<Rightarrow> (RetriesExhausted, w1)
      | (_, w1) \<Rightarrow>
          (if \<not> skip_extract cfg then
             (case try_extract (zip_path_of cfg t) (year_dir_of cfg t) w1 of
                (ok, w2) \<Rightarrow>
                  (if ok then Extracted else ExtractFailed,
                   w2\<lparr>pbar_files := pbar_files w2 + 1\<rparr>))
           else (ExtractSkipped, w1\<lparr>pbar_files := pbar_files w1 + 1\<rparr>)))"
  using assms by (simp add: download_task_def Let_def)

lemma download_task_not_found:
  assumes "\<not> fs_exists (files w) (csv_path_of cfg t)"
    and "\<not> fs_exists (files w) (zip_path_of cfg t)"
    and "k < nat (retries cfg)"
    and "\<forall>i<k. is_failure (remote (fst (snd t)) (length (fetches w) + i))"
    and "remote (fst (snd t)) (length (fetches w) + k) = NotFound"
  shows "fst (download_task cfg remote t w) = NotFound404 \<and>
    fetches (snd (download_task cfg remote t w)) = fetches w @ replicate (Suc k) (fst (snd t)) \<and>
    sleeps (snd (download_task cfg remote t w)) = sleeps w @ map (\<lambda>i. 2 ^ Suc i) [0..<k] \<and>
    log (snd (download_task cfg remote t w)) = log w @ [LogWarning (fst (snd t))] \<and>
    failures_log (snd (download_task cfg remote t w)) = failures_log w \<and>
    extractions (snd (download_task cfg remote t w)) = extractions w \<and>
    pbar_files (snd (download_task cfg remote t w)) = pbar_files w"
proof -
  from retry_loop_not_found [where remote = remote and url = "fst (snd t)" and w = w
      and k = k and cfg = cfg and zp = "zip_path_of cfg t", OF assms(4,3,5)] obtain w' where
    "retry_loop cfg remote (fst (snd t)) (zip_path_of cfg t) 1 (nat (retries cfg)) w = (Return404, w')"
    and "fetches w' = fetches w @ replicate (Suc k) (fst (snd t))"
    and "sleeps w' = sleeps w @ map (\<lambda>i. 2 ^ Suc i) [0..<k]"
    and "failures_log w' = failures_log w" and "log w' = log w @ [LogWarning (fst (snd t))]"
    and "extractions w' = extractions w" and "pbar_files w' = pbar_files w"
    by blast
  then show ?thesis by (simp add: download_task_fresh [OF assms(1,2)])
qed

lemma download_task_exhausted:
  assumes "\<not> fs_exists (files w) (csv_path_of cfg t)"
    and "\<not> fs_exists (files w) (zip_path_of cfg t)"
    and "1 \<le> retries cfg"
    and "\<forall>i<nat (retries cfg). is_failure (remote (fst (snd t)) (length (fetches w) + i))"
  shows "fst (download_task cfg remote t w) = RetriesExhausted \<and>
    fetches (snd (download_task cfg remote t w)) =
      fetches w @ replicate (nat (retries cfg)) (fst (snd t)) \<and>
    sleeps (snd (download_task cfg remote t w)) =
      sleeps w @ map (\<lambda>i. 2 ^ Suc i) [0..<nat (retries cfg) - 1] \<and>
    failures_log (snd (download_task cfg remote t w)) = failures_log w @ [fst (snd t)] \<and>
    log (snd (download_task cfg remote t w)) = log w @ [LogError (fst (snd t))] \<and>
    extractions (snd (download_task cfg remote t w)) = extractions w \<and>
    pbar_files (snd (download_task cfg remote t w)) = pbar_files w"
proof -
  from retry_loop_exhausted [where remote = remote and url = "fst (snd t)" and w = w
      and cfg = cfg and zp = "zip_path_of cfg t", OF assms(4,3)] obtain w' where
    "retry_loop cfg remote (fst (snd t)) (zip_path_of cfg t) 1 (nat (retries cfg)) w = (ReturnFailed, w')"
    and "fetches w' = fetches w @ replicate (nat (retries cfg)) (fst (snd t))"
    and "sleeps w' = sleeps w @ map (\<lambda>i. 2 ^ Suc i) [0..<nat (retries cfg) - 1]"
    and "failures_log w' = failures_log w @ [fst (snd t)]"
    and "log w' = log w @ [LogError (fst (snd t))]"
    and "extractions w' = extractions w" and "pbar_files w' = pbar_files w"
    by blast
  then show ?thesis by (simp add: download_task_fresh [OF assms(1,2)])
qed

text \<open>
  C1, as stated, fails: on a 404 the script logs the warning and returns, and nothing is
  appended to \<open>failures.log\<close>. Here the first request is answered with 404; one
  request was made and the failure log is still empty.
\<close>

theorem not_found_counterexample:
  "fst (download_task default_config (\<lambda>url n. NotFound) task2015 empty_world) = NotFound404 \<and>
   fetches (snd (download_task default_config (\<lambda>url n. NotFound) task2015 empty_world)) = [url2015] \<and>
   failures_log (snd (download_task default_config (\<lambda>url n. NotFound) task2015 empty_world)) = []"
proof -
  have "\<not> fs_exists (files empty_world) (csv_path_of default_config task2015)"
    and "\<not> fs_exists (files empty_world) (zip_path_of default_config task2015)"
    by (simp_all add: empty_world_def fs_exists_def)
  moreover have "(0::nat) < nat (retries default_config)"
    by (simp add: default_config_def)
  ultimately show ?thesis
    using download_task_not_found [of empty_world default_config task2015 0 "\<lambda>url n. NotFound"]
    by (simp add: empty_world_def task2015_def)
qed

text \<open>
  C1, amended. For every task that has to be downloaded (neither its extracted file nor
  its archive exists), if the request is answered with 404, at the first attempt or
  after \<open>k\<close> failed attempts that were retried, the task ends there: exactly one
  more request than the failed ones was made, the delays of the failed attempts are
  \<open>2, 4, ..., 2 ^ k\<close>, one warning is logged, nothing is appended to the failure log,
  nothing is extracted and the file counter is not moved.
\<close>

theorem not_found_terminal:
  assumes "\<not> fs_exists (files w) (csv_path_of cfg t)"
    and "\<not> fs_exists (files w) (zip_path_of cfg t)"
    and "k < nat (retries cfg)"
    and "\<forall>i<k. is_failure (remote (fst (snd t)) (length (fetches w) + i))"
    and "remote (fst (snd t)) (length (fetches w) + k) = NotFound"
  shows "fst (download_task cfg remote t w) = NotFound404 \<and>
    fetches (snd (download_task cfg remote t w)) = fetches w @ replicate (Suc k) (fst (snd t)) \<and>
    sleeps (snd (download_task cfg remote t w)) = sleeps w @ map (\<lambda>i. 2 ^ Suc i) [0..<k] \<and>
    log (snd (download_task cfg remote t w)) = log w @ [LogWarning (fst (snd t))] \<and>
    failures_log (snd (download_task cfg remote t w)) = failures_log w \<and>
    extractions (snd (download_task cfg remote t w)) = extractions w \<and>
    pbar_files (snd (download_task cfg remote t w)) = pbar_files w"
  using assms by (rule download_task_not_found)

text \<open>
  The hypotheses of the amended C1 hold for a first attempt that fails and a second that
  is answered with 404.
\<close>

theorem not_found_terminal_witness:
  "fst (download_task default_config (\<lambda>url n. if n < 1 then Failure else NotFound) task2015 empty_world) = NotFound404 \<and>
   fetches (snd (download_task default_config (\<lambda>url n. if n < 1 then Failure else NotFound) task2015 empty_world)) = [url2015, url2015] \<and>
   sleeps (snd (download_task default_config (\<lambda>url n. if n < 1 then Failure else NotFound) task2015 empty_world)) = [2] \<and>
   log (snd (download_task default_config (\<lambda>url n. if n < 1 then Failure else NotFound) task2015 empty_world)) = [LogWarning url2015] \<and>
   failures_log (snd (download_task default_config (\<lambda>url n. if n < 1 then Failure else NotFound) task2015 empty_world)) = []"
proof -
  have "\<not> fs_exists (files empty_world) (csv_path_of default_config task2015)"
    and "\<not> fs_exists (files empty_world) (zip_path_of default_config task2015)"
    by (simp_all add: empty_world_def fs_exists_def)
  moreover have "(1::nat) < nat (retries default_config)"
    by (simp add: default_config_def)
  moreover have "\<forall>i<(1::nat). is_failure ((\<lambda>url n. if n < 1 then Failure else NotFound)
        (fst (snd task2015)) (length (fetches empty_world) + i))"
    by (simp add: is_failure_def empty_world_def)
  moreover have "(\<lambda>url n. if n < 1 then Failure else NotFound)
        (fst (snd task2015)) (length (fetches empty_world) + 1) = NotFound"
    by (simp add: empty_world_def)
  ultimately show ?thesis
    using not_found_terminal [of empty_world default_config task2015 1
        "\<lambda>url n. if n < 1 then Failure else NotFound"]
    by (simp add: empty_world_def task2015_def)
qed

text \<open>
  C3. With retry limit \<open>R \<ge> 1\<close>, a task to be downloaded whose every attempt fails
  with an error other than 404 makes exactly \<open>R\<close> requests, sleeps \<open>2 ^ attempt\<close> after
  every failed attempt but the last (the delays \<open>2, 4, ..., 2 ^ (R - 1)\<close>), appends
  exactly its url to the failure log and ends without extraction and without moving the
  file counter. A successful fetch ends the loop at once: after \<open>k < R\<close> failed attempts
  and a delivered body the loop has made \<open>k + 1\<close> requests and left the failure log as
  it was.
\<close>

theorem retry_backoff:
  "(\<not> fs_exists (files w) (csv_path_of cfg t) \<and> \<not> fs_exists (files w) (zip_path_of cfg t) \<and>
    1 \<le> retries cfg \<and>
    (\<forall>i<nat (retries cfg). is_failure (remote (fst (snd t)) (length (fetches w) + i))) \<longrightarrow>
      fst (download_task cfg remote t w) = RetriesExhausted \<and>
      fetches (snd (download_task cfg remote t w)) =
        fetches w @ replicate (nat (retries cfg)) (fst (snd t)) \<and>
      sleeps (snd (download_task cfg remote t w)) =
        sleeps w @ map (\<lambda>i. 2 ^ Suc i) [0..<nat (retries cfg) - 1] \<and>
      failures_log (snd (download_task cfg remote t w)) = failures_log w @ [fst (snd t)] \<and>
      extractions (snd (download_task cfg remote t w)) = extractions w \<and>
      pbar_files (snd (download_task cfg remote t w)) = pbar_files w) \<and>
   (k < nat (retries cfg) \<and>
    (\<forall>i<k. is_failure (remote url (length (fetches w) + i))) \<and>
    remote url (length (fetches w) + k) = Delivered d \<longrightarrow>
      fst (retry_loop cfg remote url zp 1 (nat (retries cfg)) w) = Downloaded \<and>
      fetches (snd (retry_loop cfg remote url zp 1 (nat (retries cfg)) w)) =
        fetches w @ replicate (Suc k) url \<and>
      sleeps (snd (retry_loop cfg remote url zp 1 (nat (retries cfg)) w)) =
        sleeps w @ map (\<lambda>i. 2 ^ Suc i) [0..<k] \<and>
      failures_log (snd (retry_loop cfg remote url zp 1 (nat (retries cfg)) w)) = failures_log w)"
proof (intro conjI impI)
  assume a: "\<not> fs_exists (files w) (csv_path_of cfg t) \<and> \<not> fs_exists (files w) (zip_path_of cfg t) \<and>
    1 \<le> retries cfg \<and>
    (\<forall>i<nat (retries cfg). is_failure (remote (fst (snd t)) (length (fetches w) + i)))"
  then have ex: "fst (download_task cfg remote t w) = RetriesExhausted \<and>
    fetches (snd (download_task cfg remote t w)) =
      fetches w @ replicate (nat (retries cfg)) (fst (snd t)) \<and>
    sleeps (snd (download_task cfg remote t w)) =
      sleeps w @ map (\<lambda>i. 2 ^ Suc i) [0..<nat (retries cfg) - 1] \<and>
    failures_log (snd (download_task cfg remote t w)) = failures_log w @ [fst (snd t)] \<and>
    log (snd (download_task cfg remote t w)) = log w @ [LogError (fst (snd t))] \<and>
    extractions (snd (download_task cfg remote t w)) = extractions w \<and>
    pbar_files (snd (download_task cfg remote t w)) = pbar_files w"
    by (intro download_task_exhausted) simp_all
  from ex show "fst (download_task cfg remote t w) = RetriesExhausted" by simp
  from ex show "fetches (snd (download_task cfg remote t w)) =
      fetches w @ replicate (nat (retries cfg)) (fst (snd t))" by simp
  from ex show "sleeps (snd (download_task cfg remote t w)) =
      sleeps w @ map (\<lambda>i. 2 ^ Suc i) [0..<nat (retries cfg) - 1]" by simp
  from ex show "failures_log (snd (download_task cfg remote t w)) = failures_log w @ [fst (snd t)]"
    by simp
  from ex show "extractions (snd (download_task cfg remote t w)) = extractions w" by simp
  from ex show "pbar_files (snd (download_task cfg remote t w)) = pbar_files w" by simp
next
  assume b: "k < nat (retries cfg) \<and>
    (\<forall>i<k. is_failure (remote url (length (fetches w) + i))) \<and>
    remote url (length (fetches w) + k) = Delivered d"
  then have "\<exists>w'. retry_loop cfg remote url zp 1 (nat (retries cfg)) w = (Downloaded, w') \<and>
           fetches w' = fetches w @ replicate (Suc k) url \<and>
           sleeps w' = sleeps w @ map (\<lambda>i. 2 ^ Suc i) [0..<k] \<and>
           failures_log w' = failures_log w \<and> log w' = log w \<and>
           extractions w' = extractions w \<and> pbar_files w' = pbar_files w \<and>
           pbar_zips w' = pbar_zips w \<and> map_of (files w') zp = Some d"
    by (intro retry_loop_delivered) simp_all
  then obtain w' where w': "retry_loop cfg remote url zp 1 (nat (retries cfg)) w = (Downloaded, w')"
    "fetches w' = fetches w @ replicate (Suc k) url"
    "sleeps w' = sleeps w @ map (\<lambda>i. 2 ^ Suc i) [0..<k]"
    "failures_log w' = failures_log w"
    by blast
  from w' show "fst (retry_loop cfg remote url zp 1 (nat (retries cfg)) w) = Downloaded" by simp
  from w' show "fetches (snd (retry_loop cfg remote url zp 1 (nat (retries cfg)) w)) =
        fetches w @ replicate (Suc k) url" by simp
  from w' show "sleeps (snd (retry_loop cfg remote url zp 1 (nat (retries cfg)) w)) =
        sleeps w @ map (\<lambda>i. 2 ^ Suc i) [0..<k]" by simp
  from w' show "failures_log (snd (retry_loop cfg remote url zp 1 (nat (retries cfg)) w)) = failures_log w"
    by simp
qed







text \<open>
  Both parts of C3 at the default retry limit 3: three failing attempts give three
  requests, the delays 2 and 4 and one failure record; one failing attempt followed by
  a delivered body gives two requests, the delay 2 and no failure record.
\<close>

theorem retry_backoff_witness:
  "fst (download_task default_config (\<lambda>url n. Failure) task2015 empty_world) = RetriesExhausted \<and>
   fetches (snd (download_task default_config (\<lambda>url n. Failure) task2015 empty_world)) =
     [url2015, url2015, url2015] \<and>
   sleeps (snd (download_task default_config (\<lambda>url n. Failure) task2015 empty_world)) = [2, 4] \<and>
   failures_log (snd (download_task default_config (\<lambda>url n. Failure) task2015 empty_world)) =
     [url2015] \<and>
   fst (retry_loop default_config (\<lambda>url n. if n < 1 then Failure else Delivered (Raw ''PK''))
          url2015 zip2015 1 3 empty_world) = Downloaded \<and>
   fetches (snd (retry_loop default_config
          (\<lambda>url n. if n < 1 then Failure else Delivered (Raw ''PK''))
          url2015 zip2015 1 3 empty_world)) = [url2015, url2015] \<and>
   sleeps (snd (retry_loop default_config
          (\<lambda>url n. if n < 1 then Failure else Delivered (Raw ''PK''))
          url2015 zip2015 1 3 empty_world)) = [2] \<and>
   failures_log (snd (retry_loop default_config
          (\<lambda>url n. if n < 1 then Failure else Delivered (Raw ''PK''))
          url2015 zip2015 1 3 empty_world)) = []"
proof -
  have r: "nat (retries default_config) = 3" "1 \<le> retries default_config"
    by (simp_all add: default_config_def)
  have fresh: "\<not> fs_exists (files empty_world) (csv_path_of default_config task2015)"
    "\<not> fs_exists (files empty_world) (zip_path_of default_config task2015)"
    by (simp_all add: empty_world_def fs_exists_def)
  have failing: "\<forall>i<nat (retries default_config).
      is_failure ((\<lambda>url n. Failure) (fst (snd task2015)) (length (fetches empty_world) + i))"
    by (simp add: is_failure_def)
  have upt: "[0..<2] = [0, Suc 0]" "[0..<Suc 0] = [0]"
    by (simp_all add: upt_rec)
  have exhausted: "fst (download_task default_config (\<lambda>url n. Failure) task2015 empty_world) = RetriesExhausted \<and>
      fetches (snd (download_task default_config (\<lambda>url n. Failure) task2015 empty_world)) =
        [url2015, url2015, url2015] \<and>
      sleeps (snd (download_task default_config (\<lambda>url n. Failure) task2015 empty_world)) = [2, 4] \<and>
      failures_log (snd (download_task default_config (\<lambda>url n. Failure) task2015 empty_world)) =
        [url2015]"
    using retry_backoff [where cfg = default_config and t = task2015 and w = empty_world
        and remote = "\<lambda>url n. Failure" and k = 0 and url = url2015 and zp = zip2015
        and d = "Raw ''PK''", THEN conjunct1] fresh failing r
    by (simp add: empty_world_def task2015_def numeral_3_eq_3 upt)
  have one_failure: "\<forall>i<(1::nat). is_failure
      ((\<lambda>url n. if n < 1 then Failure else Delivered (Raw ''PK'')) url2015
        (length (fetches empty_world) + i))"
    by (simp add: is_failure_def empty_world_def)
  have delivered: "(\<lambda>url n. if n < 1 then Failure else Delivered (Raw ''PK'')) url2015
        (length (fetches empty_world) + 1) = Delivered (Raw ''PK'')"
    by (simp add: empty_world_def)
  have success: "fst (retry_loop default_config (\<lambda>url n. if n < 1 then Failure else Delivered (Raw ''PK''))
          url2015 zip2015 1 3 empty_world) = Downloaded \<and>
   fetches (snd (retry_loop default_config
          (\<lambda>url n. if n < 1 then Failure else Delivered (Raw ''PK''))
          url2015 zip2015 1 3 empty_world)) = [url2015, url2015] \<and>
   sleeps (snd (retry_loop default_config
          (\<lambda>url n. if n < 1 then Failure else Delivered (Raw ''PK''))
          url2015 zip2015 1 3 empty_world)) = [2] \<and>
   failures_log (snd (retry_loop default_config
          (\<lambda>url n. if n < 1 then Failure else Delivered (Raw ''PK''))
          url2015 zip2015 1 3 empty_world)) = []"
    using retry_backoff [where cfg = default_config and t = task2015 and w = empty_world
        and remote = "\<lambda>url n. if n < 1 then Failure else Delivered (Raw ''PK'')"
        and k = 1 and url = url2015 and zp = zip2015
        and d = "Raw ''PK''", THEN conjunct2] one_failure delivered r
    by (simp add: empty_world_def upt)
  from exhausted success show ?thesis by simp
qed

section \<open>Resume and progress\<close>

lemma fresh_empty:
  "\<not> fs_exists (files empty_world) p"
  by (simp add: empty_world_def fs_exists_def)

lemma name2015: "path_name url2015 = ''20150218230000.gkg.csv.zip''"
  by (simp add: path_name_def url2015_def)

lemma str2015: "py_str 2015 = ''2015''"
  by (simp add: py_str_def nat_str.simps)

lemma paths2015:
  "year_dir_of (default_config\<lparr>skip_extract := b\<rparr>) task2015 = [''data'', ''2015'']"
  "zip_path_of (default_config\<lparr>skip_extract := b\<rparr>) task2015 = zip2015"
  "csv_path_of (default_config\<lparr>skip_extract := b\<rparr>) task2015 = csv2015"
  by (simp_all add: zip_path_of_def csv_path_of_def year_dir_of_def default_config_def task2015_def
      zip2015_def csv2015_def name2015 str2015 path_join_def path_parts_def is_absolute_def)

lemma default_config_skip: "default_config\<lparr>skip_extract := False\<rparr> = default_config"
  by (simp add: default_config_def)

lemma exists2015:
  "\<not> fs_exists (files zip_world) csv2015" "fs_exists (files zip_world) zip2015"
  "fs_exists (files extracted_world) csv2015"
  by (simp_all add: zip_world_def extracted_world_def empty_world_def fs_exists_def
      zip2015_def csv2015_def)




lemma serving2015:
  "serving url2015 n = Delivered (Archive [(''20150218230000.gkg.csv'', ''rows'')])"
  by (simp add: serving_def name2015)

lemma member2015: "member_parts ''20150218230000.gkg.csv'' = [''20150218230000.gkg.csv'']"
  by (simp add: member_parts_def)

lemma download2015:
  "download_task default_config serving task2015 empty_world =
     (Extracted,
      \<lparr>files = [(zip2015, Archive [(''20150218230000.gkg.csv'', ''rows'')]), (csv2015, Raw ''rows'')],
       failures_log = [], fetches = [url2015], sleeps = [],
       extractions = [(zip2015, [''data'', ''2015''])], log = [],
       pbar_files = 1, pbar_zips = 0\<rparr>)"
proof -
  have r: "nat (retries default_config) = Suc (Suc (Suc 0))"
    by (simp add: default_config_def)
  have s: "\<not> skip_extract default_config"
    by (simp add: default_config_def)
  have u: "fst (snd task2015) = url2015"
    by (simp add: task2015_def)
  show ?thesis
    unfolding download_task_fresh [OF fresh_empty fresh_empty]
      paths2015 [of False, unfolded default_config_skip] r u
    by (simp add: s attempt_fetch_def serving2015 try_extract_def extractall_def
        extract_member_def member2015 endswith_def empty_world_def zip2015_def csv2015_def)
qed




section \<open>The extraction-only phase\<close>







lemma name2016: "path_name url2016 = ''20160101000000.gkg.csv.zip''"
  by (simp add: path_name_def url2016_def)

lemma str2016: "py_str 2016 = ''2016''"
  by (simp add: py_str_def nat_str.simps)

lemma paths2016:
  "year_dir_of (default_config\<lparr>skip_extract := b\<rparr>) task2016 = [''data'', ''2016'']"
  "zip_path_of (default_config\<lparr>skip_extract := b\<rparr>) task2016 = zip2016"
  "csv_path_of (default_config\<lparr>skip_extract := b\<rparr>) task2016 = csv2016"
  by (simp_all add: zip_path_of_def csv_path_of_def year_dir_of_def default_config_def task2016_def
      zip2016_def csv2016_def name2016 str2016 path_join_def path_parts_def is_absolute_def)

lemma serving2016:
  "serving url2016 n = Delivered (Archive [(''20160101000000.gkg.csv'', ''rows'')])"
  by (simp add: serving_def name2016)

lemma member2016: "member_parts ''20160101000000.gkg.csv'' = [''20160101000000.gkg.csv'']"
  by (simp add: member_parts_def)

lemma raw_parts: "path_parts ''rawdata'' = [''rawdata'']"
  by (simp add: path_parts_def)

lemma download_task_delivered_archive:
  assumes "\<not> fs_exists (files w) (csv_path_of cfg t)"
    and "\<not> fs_exists (files w) (zip_path_of cfg t)"
    and "0 < retries cfg"
    and "remote (fst (snd t)) (length (fetches w)) = Delivered (Archive ms)"
  shows "download_task cfg remote t w =
     (if skip_extract cfg then
        (ExtractSkipped,
         w\<lparr>fetches := fetches w @ [fst (snd t)],
           files := fs_write (zip_path_of cfg t) (Archive ms) (files w),
           pbar_files := pbar_files w + 1\<rparr>)
      else
        (Extracted,
         w\<lparr>fetches := fetches w @ [fst (snd t)],
           files := extractall (year_dir_of cfg t) ms
                      (fs_write (zip_path_of cfg t) (Archive ms) (files w)),
           extractions := extractions w @ [(zip_path_of cfg t, year_dir_of cfg t)],
           pbar_files := pbar_files w + 1\<rparr>))"
proof -
  from assms(3) obtain m where m: "nat (retries cfg) = Suc m"
    by (cases "nat (retries cfg)") auto
  have fetch: "attempt_fetch remote (fst (snd t)) (zip_path_of cfg t) w =
      Broke (w\<lparr>fetches := fetches w @ [fst (snd t)],
               files := fs_write (zip_path_of cfg t) (Archive ms) (files w)\<rparr>)"
    using assms(4) by (rule attempt_fetch_delivered)
  show ?thesis
    unfolding download_task_fresh [OF assms(1,2)] m
    by (simp add: fetch try_extract_def map_of_fs_write)
qed

lemma parse_manifest2:
  "parse_masterfiles default_config rnd manifest2 = ([task2015, task2016], 1333)"
  "parse_masterfiles download_only_config rnd manifest2 = ([task2015, task2016], 1333)"
proof -
  have lines: "parse_line (default_config\<lparr>skip_extract := b\<rparr>)
       ''1234 abcd1234ef http://host/path/20150218230000.gkg.csv.zip'' = Some task2015"
    "parse_line (default_config\<lparr>skip_extract := b\<rparr>)
       ''99 0123456789 http://host/path/20160101000000.gkg.csv.zip'' = Some task2016" for b
    by code_simp+
  have "parse_masterfiles (default_config\<lparr>skip_extract := b\<rparr>) rnd manifest2 =
      ([task2015, task2016], 1333)" for b
    by (simp add: parse_masterfiles_def manifest2_def lines)
      (simp add: default_config_def task2015_def task2016_def)
  from this [of False] this [of True]
  show "parse_masterfiles default_config rnd manifest2 = ([task2015, task2016], 1333)"
    and "parse_masterfiles download_only_config rnd manifest2 = ([task2015, task2016], 1333)"
    by (simp_all add: download_only_config_def default_config_def)
qed


lemma default_config_facts:
  "\<not> skip_extract default_config" "0 < retries default_config" "\<not> extract_only default_config"
  "skip_extract download_only_config" "0 < retries download_only_config"
  "\<not> extract_only download_only_config"
  "extract_only extract_only_config" "\<not> truthy (year_from extract_only_config)"
  "\<not> truthy (year_to extract_only_config)"
  "output_root extract_only_config = [''data'']" "raw_subdir extract_only_config = ''rawdata''"
  by (simp_all add: default_config_def download_only_config_def extract_only_config_def truthy_def)

lemma task_urls: "fst (snd task2015) = url2015" "fst (snd task2016) = url2016"
  by (simp_all add: task2015_def task2016_def)

lemma run_combined:
  "main default_config serving rnd manifest2 empty_world = (None, combined_world)"
proof -
  note paths15 = paths2015 [of False, unfolded default_config_skip]
  note paths16 = paths2016 [of False, unfolded default_config_skip]
  define w1 where "w1 = snd (download_task default_config serving task2015 empty_world)"
  have w1: "download_task default_config serving task2015 empty_world = (Extracted, w1)"
    "files w1 = [(zip2015, Archive [(''20150218230000.gkg.csv'', ''rows'')]), (csv2015, Raw ''rows'')]"
    "fetches w1 = [url2015]" "extractions w1 = [(zip2015, [''data'', ''2015''])]"
    "failures_log w1 = []" "sleeps w1 = []" "log w1 = []" "pbar_files w1 = 1" "pbar_zips w1 = 0"
    by (simp_all add: w1_def download2015)
  have fresh: "\<not> fs_exists (files w1) (csv_path_of default_config task2016)"
    "\<not> fs_exists (files w1) (zip_path_of default_config task2016)"
    by (simp_all add: w1 paths16 fs_exists_def zip2015_def csv2015_def zip2016_def csv2016_def)
  have served: "serving (fst (snd task2016)) (length (fetches w1)) =
      Delivered (Archive [(''20160101000000.gkg.csv'', ''rows'')])"
    by (simp add: task_urls serving2016)
  have second: "download_task default_config serving task2016 w1 = (Extracted, combined_world)"
    unfolding download_task_delivered_archive [where remote = serving and w = w1
        and cfg = default_config and t = task2016, OF fresh default_config_facts(2) served]
    by (simp add: default_config_facts paths16 task_urls w1 extractall_def extract_member_def
        member2016 endswith_def combined_world_def zip2015_def csv2015_def zip2016_def csv2016_def)
  show ?thesis
    by (simp add: main_def default_config_facts parse_manifest2 w1 second)
qed

lemma run_download_only:
  "main download_only_config serving rnd manifest2 empty_world = (None, downloaded_world)"
proof -
  note paths15 = paths2015 [of True, folded download_only_config_def]
  note paths16 = paths2016 [of True, folded download_only_config_def]
  define w1 where "w1 = empty_world\<lparr>fetches := [url2015],
      files := [(zip2015, Archive [(''20150218230000.gkg.csv'', ''rows'')])], pbar_files := 1\<rparr>"
  have served15: "serving (fst (snd task2015)) (length (fetches empty_world)) =
      Delivered (Archive [(''20150218230000.gkg.csv'', ''rows'')])"
    by (simp add: task_urls serving2015)
  have first: "download_task download_only_config serving task2015 empty_world = (ExtractSkipped, w1)"
    unfolding download_task_delivered_archive [where remote = serving and w = empty_world
        and cfg = download_only_config and t = task2015,
        OF fresh_empty fresh_empty default_config_facts(5) served15]
    by (simp add: default_config_facts paths15 task_urls w1_def empty_world_def)
  have fresh: "\<not> fs_exists (files w1) (csv_path_of download_only_config task2016)"
    "\<not> fs_exists (files w1) (zip_path_of download_only_config task2016)"
    by (simp_all add: w1_def paths16 fs_exists_def zip2015_def zip2016_def csv2016_def)
  have served16: "serving (fst (snd task2016)) (length (fetches w1)) =
      Delivered (Archive [(''20160101000000.gkg.csv'', ''rows'')])"
    by (simp add: task_urls serving2016)
  have second: "download_task download_only_config serving task2016 w1 = (ExtractSkipped, downloaded_world)"
    unfolding download_task_delivered_archive [where remote = serving and w = w1
        and cfg = download_only_config and t = task2016, OF fresh default_config_facts(5) served16]
    by (simp add: default_config_facts paths16 task_urls w1_def empty_world_def
        downloaded_world_def zip2015_def zip2016_def)
  show ?thesis
    by (simp add: main_def default_config_facts parse_manifest2 first second)
qed


lemmas path_defs = zip2015_def zip2016_def csv2015_def csv2016_def

lemma rglob_concrete:
  "rglob_zips extract_only_config (files zip_world) = [zip2015]"
  "rglob_zips extract_only_config (files extracted_world) = [zip2015]"
  "rglob_zips extract_only_config (files combined_world) = [zip2015, zip2016]"
  "rglob_zips extract_only_config (files downloaded_world) = [zip2015, zip2016]"
  by (simp_all add: rglob_zips_def is_raw_zip_def default_config_facts raw_parts endswith_def
      zip_world_def extracted_world_def combined_world_def downloaded_world_def empty_world_def
      path_defs)

lemma select_concrete:
  "select_zips extract_only_config (files zip_world) = Inr [zip2015]"
  "select_zips extract_only_config (files extracted_world) = Inr [zip2015]"
  "select_zips extract_only_config (files combined_world) = Inr [zip2015, zip2016]"
  "select_zips extract_only_config (files downloaded_world) = Inr [zip2015, zip2016]"
  by (simp_all add: select_zips_def default_config_facts rglob_concrete)

lemma parents_concrete:
  "parents zip2015 2 = Inr [''data'']" "parents zip2016 2 = Inr [''data'']"
  by (simp_all add: parents_def n_parents_def is_absolute_def path_defs)

lemmas extract_defs = extract_one_def try_extract_def extractall_def extract_member_def
  member2015 member2016 endswith_def

lemma extract_only_zip_world:
  "main extract_only_config remote rnd masterfiles zip_world =
     (None,
      zip_world\<lparr>files := [(zip2015, Archive [(''20150218230000.gkg.csv'', ''rows'')]),
                          ([''data'', ''20150218230000.gkg.csv''], Raw ''rows'')],
                extractions := [(zip2015, [''data''])], pbar_zips := 1\<rparr>)"
  by (simp add: main_def default_config_facts select_concrete parents_concrete)
    (simp add: extract_defs zip_world_def empty_world_def path_defs)

lemma extract_only_combined_world:
  "main extract_only_config remote rnd masterfiles combined_world =
     (None,
      combined_world\<lparr>files := files combined_world @
                          [([''data'', ''20150218230000.gkg.csv''], Raw ''rows''),
                           ([''data'', ''20160101000000.gkg.csv''], Raw ''rows'')],
                extractions := extractions combined_world @
                          [(zip2015, [''data'']), (zip2016, [''data''])], pbar_zips := 2\<rparr>)"
  by (simp add: main_def default_config_facts select_concrete parents_concrete)
    (simp add: extract_defs combined_world_def path_defs)

lemma extract_only_downloaded_world:
  "main extract_only_config remote rnd masterfiles downloaded_world =
     (None,
      downloaded_world\<lparr>files := files downloaded_world @
                          [([''data'', ''20150218230000.gkg.csv''], Raw ''rows''),
                           ([''data'', ''20160101000000.gkg.csv''], Raw ''rows'')],
                extractions := [(zip2015, [''data'']), (zip2016, [''data''])], pbar_zips := 2\<rparr>)"
  by (simp add: main_def default_config_facts select_concrete parents_concrete)
    (simp add: extract_defs downloaded_world_def path_defs)


lemma inline_zip_world:
  "download_task default_config serving task2015 zip_world =
     (Extracted,
      zip_world\<lparr>files := [(zip2015, Archive [(''20150218230000.gkg.csv'', ''rows'')]),
                          (csv2015, Raw ''rows'')],
                extractions := [(zip2015, [''data'', ''2015''])], pbar_files := 1\<rparr>)"
  by (simp add: download_task_def paths2015 [of False, unfolded default_config_skip] exists2015
      default_config_facts)
    (simp add: extract_defs zip_world_def empty_world_def path_defs)

text \<open>
  C2 on the code. For the archive \<open>data/2015/rawdata/20150218230000.gkg.csv.zip\<close> the
  inline mode extracts into the year directory \<open>data/2015\<close>, as C2 says, but the
  extraction-only mode extracts into \<open>data\<close>, the output root: \<open>zp.parents[2]\<close> is the
  third ancestor of the archive, one level above the year directory, and the CSV file
  lands at \<open>data/20150218230000.gkg.csv\<close>.
\<close>

theorem extract_only_target:
  "year_dir_of default_config task2015 = [''data'', ''2015''] \<and>
   extractions (snd (download_task default_config serving task2015 zip_world)) =
     [(zip2015, [''data'', ''2015''])] \<and>
   map fst (files (snd (download_task default_config serving task2015 zip_world))) =
     [zip2015, [''data'', ''2015'', ''20150218230000.gkg.csv'']] \<and>
   extractions (snd (main extract_only_config serving id [] zip_world)) =
     [(zip2015, [''data''])] \<and>
   map fst (files (snd (main extract_only_config serving id [] zip_world))) =
     [zip2015, [''data'', ''20150218230000.gkg.csv'']]"
  by (simp add: inline_zip_world extract_only_zip_world
      paths2015 [of False, unfolded default_config_skip] csv2015_def)

text \<open>
  C6 on the code. Over the two-line manifest the combined workflow leaves the two
  archives and their CSV files in the year directories. A following extraction-only run
  over the same output root adds a second copy of each CSV file directly below the
  output root, so the final set of files differs from that of the combined run alone.
  The download-only workflow followed by the extraction-only run differs as well: its
  CSV files are below the output root and none is in a year directory.
\<close>

theorem split_workflow_diverges:
  "snd (main default_config serving id manifest2 empty_world) = combined_world \<and>
   map fst (files combined_world) = [zip2015, csv2015, zip2016, csv2016] \<and>
   map fst (files (snd (main extract_only_config serving id manifest2 combined_world))) =
     [zip2015, csv2015, zip2016, csv2016,
      [''data'', ''20150218230000.gkg.csv''], [''data'', ''20160101000000.gkg.csv'']] \<and>
   snd (main download_only_config serving id manifest2 empty_world) = downloaded_world \<and>
   map fst (files (snd (main extract_only_config serving id manifest2 downloaded_world))) =
     [zip2015, zip2016,
      [''data'', ''20150218230000.gkg.csv''], [''data'', ''20160101000000.gkg.csv'']]"
  by (simp add: run_combined run_download_only extract_only_combined_world
      extract_only_downloaded_world)
    (simp add: combined_world_def downloaded_world_def)


end
